theory Spec2Isabelle
  imports
    Main
    "HOL-Library.Char_ord"
    "HOL-Library.List_Lexorder"
    "HOL-Library.Sublist"
    "HOL-Library.AList"
begin

section \<open>Strings as the program uses them\<close>

text \<open>
  File names, file contents and console input are Python \<open>str\<close> values: here
  \<^typ>\<open>string\<close>, a list of characters. Contents are the text that a text-mode
  \<open>read()\<close> returns and a text-mode \<open>write()\<close> takes. The order on strings is
  the lexicographic order on character codes (\<open>Char_ord\<close> with \<open>List_Lexorder\<close>),
  which is the order \<open>list.sort()\<close> uses on \<open>str\<close>.
\<close>

definition newline :: char where
  "newline = CHR 0x0A"

definition startswith :: "string \<Rightarrow> string \<Rightarrow> bool" where
  \<comment> \<open>\<open>s.startswith(p)\<close>\<close>
  "startswith s p = (take (length p) s = p)"

definition endswith :: "string \<Rightarrow> string \<Rightarrow> bool" where
  \<comment> \<open>\<open>s.endswith(p)\<close>\<close>
  "endswith s p = (length p \<le> length s \<and> drop (length s - length p) s = p)"

definition is_space :: "char \<Rightarrow> bool" where
  \<comment> \<open>the ASCII characters for which \<open>str.isspace()\<close> holds: codes 9 to 13, 28 to 32\<close>
  "is_space c = (let n = (of_char c :: nat) in (9 \<le> n \<and> n \<le> 13) \<or> (28 \<le> n \<and> n \<le> 32))"

definition strip :: "string \<Rightarrow> string" where
  \<comment> \<open>\<open>s.strip()\<close>\<close>
  "strip s = rev (dropWhile is_space (rev (dropWhile is_space s)))"

definition lower_char :: "char \<Rightarrow> char" where
  "lower_char c = (let n = (of_char c :: nat) in if 65 \<le> n \<and> n \<le> 90 then char_of (n + 32) else c)"

definition lower :: "string \<Rightarrow> string" where
  \<comment> \<open>\<open>s.lower()\<close> on ASCII letters\<close>
  "lower s = map lower_char s"

section \<open>Options\<close>

text \<open>The dictionary with the keys \<open>backup\<close>, \<open>delete\<close>, \<open>rename\<close>, \<open>timestamp\<close>.\<close>

record options =
  backup :: bool
  delete :: bool
  rename :: bool
  timestamp :: string

section \<open>Discovery of the migration files (lines 176 to 185)\<close>

definition init_filename :: "string \<Rightarrow> string" where
  \<comment> \<open>\<open>f"{timestamp}_initial_schema.sql"\<close>, line 105\<close>
  "init_filename ts = ts @ ''_initial_schema.sql''"

definition migration_files :: "options \<Rightarrow> string list \<Rightarrow> string list" where
  \<comment> \<open>the argument is the result of \<open>os.listdir(MIGRATIONS_DIR)\<close>\<close>
  "migration_files opts listing =
     (let fs1 = filter (\<lambda>f. endswith f ''.sql'' \<and> \<not> startswith f ''consolidated_migration'') listing;
          fs2 = (if rename opts
                 then filter (\<lambda>f. \<not> startswith f (timestamp opts @ ''_initial_schema'')) fs1
                 else fs1)
      in sort fs2)"

section \<open>The text of the consolidated file (lines 202 to 231)\<close>

text \<open>
  Each definition lists the arguments of the successive \<open>outfile.write\<close> calls.
  The clock is read between the second and the third write of the header.
\<close>

definition header_top :: "string \<Rightarrow> string \<Rightarrow> string list" where
  \<comment> \<open>lines 202 and 203: \<open>migration_files[0]\<close> and \<open>migration_files[-1]\<close>\<close>
  "header_top first_name last_name =
     [''-- CONSOLIDATED MIGRATION FILE'' @ [newline],
      ''-- This file combines all migrations from '' @ first_name @ '' through '' @ last_name @ [newline]]"

definition header_bottom :: "string \<Rightarrow> string list" where
  \<comment> \<open>lines 204 and 205\<close>
  "header_bottom created =
     [''-- Created on '' @ created @ [newline],
      ''-- Created for easier management while preserving original migrations'' @ [newline, newline]]"

definition section_header :: "string \<Rightarrow> string list" where
  \<comment> \<open>lines 219 to 221\<close>
  "section_header filename =
     [''-- ============================================='' @ [newline],
      ''-- '' @ filename @ [newline],
      ''-- ============================================='' @ [newline]]"

definition section_body :: "string \<Rightarrow> string list" where
  \<comment> \<open>lines 226 to 231: the content, a newline when the content does not end with one, a newline\<close>
  "section_body content =
     [content] @ (if \<not> endswith content [newline] then [[newline]] else []) @ [[newline]]"

text \<open>
  The reading of the specification's words that the claims about blank lines are
  compared with: the number of newline characters a text ends with, and the number
  of empty lines at its end.
\<close>

definition trailing_newlines :: "string \<Rightarrow> nat" where
  "trailing_newlines s = length (takeWhile (\<lambda>c. c = newline) (rev s))"

definition blank_lines_at_end :: "string \<Rightarrow> nat" where
  \<comment> \<open>after the last line with text, each further newline closes an empty line\<close>
  "blank_lines_at_end s =
     (if trailing_newlines s = length s then trailing_newlines s else trailing_newlines s - 1)"

section \<open>The file system, the console and the clock\<close>

text \<open>
  The migrations directory is a tree: a node is a regular file with its text or a
  directory with its entries, in the order \<open>os.listdir\<close> reports them. A path is
  the list of names below the migrations directory, so \<open>MIGRATIONS_DIR\<close> is the
  empty path and \<open>os.path.join(d, name)\<close> is \<open>d @ [name]\<close>: every name the
  program joins onto a directory (a listed file name, a formatted clock reading, the
  timestamp option) is one path component. Links, permissions, encodings and device
  failures are outside the model; the exceptions it has are those that the shape of
  the tree decides.
\<close>

datatype node = File string | Dir "(string \<times> node) list"

type_synonym path = "string list"

datatype error =
    FileExistsError | FileNotFoundError | IsADirectoryError | NotADirectoryError
  | ShutilError | NameError | EOFError | SystemExit

fun child :: "node \<Rightarrow> string \<Rightarrow> node option" where
  "child (File c) name = None"
| "child (Dir es) name = map_of es name"

fun resolve :: "node \<Rightarrow> path \<Rightarrow> error + node" where
  "resolve n [] = Inr n"
| "resolve (File c) (p # ps) = Inl NotADirectoryError"
| "resolve (Dir es) (p # ps) =
     (case map_of es p of None \<Rightarrow> Inl FileNotFoundError | Some m \<Rightarrow> resolve m ps)"

fun put :: "node \<Rightarrow> path \<Rightarrow> node \<Rightarrow> error + node" where
  \<comment> \<open>create or replace the entry at the path; the directories above it must exist\<close>
  "put n [] v = Inr v"
| "put (File c) (p # ps) v = Inl NotADirectoryError"
| "put (Dir es) (p # ps) v =
     (case map_of es p of
        None \<Rightarrow> (if ps = [] then Inr (Dir (es @ [(p, v)])) else Inl FileNotFoundError)
      | Some m \<Rightarrow>
          (case put m ps v of Inl e \<Rightarrow> Inl e | Inr m' \<Rightarrow> Inr (Dir (AList.update p m' es))))"

fun del :: "node \<Rightarrow> path \<Rightarrow> error + node" where
  \<comment> \<open>take the entry at the path out of its directory\<close>
  "del n [] = Inl IsADirectoryError"
| "del (File c) (p # ps) = Inl NotADirectoryError"
| "del (Dir es) (p # ps) =
     (case map_of es p of
        None \<Rightarrow> Inl FileNotFoundError
      | Some m \<Rightarrow>
          (if ps = [] then Inr (Dir (AList.delete p es))
           else (case del m ps of Inl e \<Rightarrow> Inl e | Inr m' \<Rightarrow> Inr (Dir (AList.update p m' es)))))"

fun fresh_dirs :: "path \<Rightarrow> node" where
  "fresh_dirs [] = Dir []"
| "fresh_dirs (p # ps) = Dir [(p, fresh_dirs ps)]"

fun mkdirs :: "node \<Rightarrow> path \<Rightarrow> error + node" where
  \<comment> \<open>\<open>os.makedirs\<close>: the missing directories of the path are created, the last one must be new\<close>
  "mkdirs n [] = Inl FileExistsError"
| "mkdirs (File c) (p # ps) = Inl NotADirectoryError"
| "mkdirs (Dir es) (p # ps) =
     (case map_of es p of
        None \<Rightarrow> Inr (Dir (es @ [(p, fresh_dirs ps)]))
      | Some m \<Rightarrow>
          (case mkdirs m ps of Inl e \<Rightarrow> Inl e | Inr m' \<Rightarrow> Inr (Dir (AList.update p m' es))))"

text \<open>A clock reading, and the three \<open>strftime\<close> formats of the program.\<close>

record datetime =
  year :: nat
  month :: nat
  day :: nat
  hour :: nat
  minute :: nat
  second :: nat

fun zdec :: "nat \<Rightarrow> nat \<Rightarrow> string" where
  \<comment> \<open>the last \<open>k\<close> decimal digits, zero padded as \<open>%m\<close>, \<open>%d\<close>, \<open>%H\<close>, \<open>%M\<close>, \<open>%S\<close> and \<open>%Y\<close> are\<close>
  "zdec 0 n = []"
| "zdec (Suc k) n = zdec k (n div 10) @ [char_of (48 + n mod 10)]"

definition fmt_date :: "datetime \<Rightarrow> string" where
  \<comment> \<open>\<open>strftime("%Y%m%d")\<close>\<close>
  "fmt_date t = zdec 4 (year t) @ zdec 2 (month t) @ zdec 2 (day t)"

definition fmt_stamp :: "datetime \<Rightarrow> string" where
  \<comment> \<open>\<open>strftime("%Y%m%d_%H%M%S")\<close>\<close>
  "fmt_stamp t = fmt_date t @ ''_'' @ zdec 2 (hour t) @ zdec 2 (minute t) @ zdec 2 (second t)"

definition fmt_created :: "datetime \<Rightarrow> string" where
  \<comment> \<open>\<open>strftime('%Y-%m-%d %H:%M:%S')\<close>\<close>
  "fmt_created t =
     zdec 4 (year t) @ ''-'' @ zdec 2 (month t) @ ''-'' @ zdec 2 (day t) @ '' '' @
     zdec 2 (hour t) @ '':'' @ zdec 2 (minute t) @ '':'' @ zdec 2 (second t)"

text \<open>
  What \<open>log\<close> prints, by call site, and what the run does to its surroundings. The
  history keeps every effect with the tree as it is right after it, the latest first.
\<close>

datatype message =
    Created_backup_dir
  | All_backed_up path
  | Originals_deleted
  | Init_backed_up path
  | Renamed_to string
  | No_migration_files
  | Found nat
  | Backup_complete path
  | Existing_backed_up path
  | Consolidated_into path
  | Total_processed nat
  | Delete_without_backup
  | Delete_cancelled

datatype event =
    Made_dirs path
  | Copied path path
  | Opened path
  | Wrote path string
  | Moved path path
  | Removed path
  | Logged message
  | Answered string

record world =
  fs :: node
  stdin :: "string list"
  clock :: "nat \<Rightarrow> datetime"
  ticks :: nat
  rich_available :: bool
  hist :: "(event \<times> node) list"

type_synonym 'a result = "(error \<times> world) + ('a \<times> world)"

definition raise :: "error \<Rightarrow> world \<Rightarrow> 'a result" where
  "raise e w = Inl (e, w)"

definition return :: "'a \<Rightarrow> world \<Rightarrow> 'a result" where
  "return x w = Inr (x, w)"

definition bind :: "(world \<Rightarrow> 'a result) \<Rightarrow> ('a \<Rightarrow> world \<Rightarrow> 'b result) \<Rightarrow> world \<Rightarrow> 'b result" where
  \<comment> \<open>one statement after another: an exception ends the sequence where it is raised\<close>
  "bind m f w = (case m w of Inl ew \<Rightarrow> Inl ew | Inr (x, w') \<Rightarrow> f x w')"

primrec for_each :: "'a list \<Rightarrow> ('a \<Rightarrow> world \<Rightarrow> unit result) \<Rightarrow> world \<Rightarrow> unit result" where
  "for_each [] body = return ()"
| "for_each (x # xs) body = bind (body x) (\<lambda>_. for_each xs body)"


definition emit :: "event \<Rightarrow> node \<Rightarrow> world \<Rightarrow> world" where
  "emit e t w = w\<lparr>fs := t, hist := (e, t) # hist w\<rparr>"

definition effect :: "event \<Rightarrow> error + node \<Rightarrow> world \<Rightarrow> unit result" where
  "effect e r w = (case r of Inl err \<Rightarrow> raise err w | Inr t \<Rightarrow> return () (emit e t w))"

subsection \<open>The library calls\<close>

definition os_path_exists :: "path \<Rightarrow> world \<Rightarrow> bool" where
  "os_path_exists p w = (case resolve (fs w) p of Inl e \<Rightarrow> False | Inr n \<Rightarrow> True)"

definition os_path_isdir :: "path \<Rightarrow> world \<Rightarrow> bool" where
  "os_path_isdir p w = (case resolve (fs w) p of Inr (Dir es) \<Rightarrow> True | _ \<Rightarrow> False)"

definition os_listdir :: "path \<Rightarrow> world \<Rightarrow> string list result" where
  "os_listdir p w =
     (case resolve (fs w) p of
        Inl e \<Rightarrow> raise e w
      | Inr (File c) \<Rightarrow> raise NotADirectoryError w
      | Inr (Dir es) \<Rightarrow> return (map fst es) w)"

definition os_makedirs :: "path \<Rightarrow> world \<Rightarrow> unit result" where
  "os_makedirs p w = effect (Made_dirs p) (mkdirs (fs w) p) w"

definition read_text :: "path \<Rightarrow> world \<Rightarrow> string result" where
  \<comment> \<open>\<open>open(p, 'r')\<close> and \<open>read()\<close>\<close>
  "read_text p w =
     (case resolve (fs w) p of
        Inl e \<Rightarrow> raise e w
      | Inr (Dir es) \<Rightarrow> raise IsADirectoryError w
      | Inr (File c) \<Rightarrow> return c w)"

definition open_w :: "path \<Rightarrow> world \<Rightarrow> unit result" where
  \<comment> \<open>\<open>open(p, 'w')\<close>: the file is created, or emptied when it exists\<close>
  "open_w p w =
     (if os_path_isdir p w then raise IsADirectoryError w
      else effect (Opened p) (put (fs w) p (File [])) w)"

definition file_write :: "path \<Rightarrow> string \<Rightarrow> world \<Rightarrow> unit result" where
  \<comment> \<open>\<open>write(s)\<close> on the file opened at \<open>p\<close>: the text is appended\<close>
  "file_write p s w =
     (case resolve (fs w) p of
        Inl e \<Rightarrow> raise e w
      | Inr (Dir es) \<Rightarrow> raise IsADirectoryError w
      | Inr (File c) \<Rightarrow> effect (Wrote p s) (put (fs w) p (File (c @ s))) w)"

definition shutil_copy2 :: "path \<Rightarrow> path \<Rightarrow> world \<Rightarrow> path result" where
  \<comment> \<open>a destination that is a directory receives the file under the source's own name;
      the source is opened first, then the destination; the result is the path written\<close>
  "shutil_copy2 src dst w =
     (let dst' = (if os_path_isdir dst w then dst @ [last src] else dst) in
      case resolve (fs w) src of
        Inl e \<Rightarrow> raise e w
      | Inr (Dir es) \<Rightarrow> raise IsADirectoryError w
      | Inr (File c) \<Rightarrow>
          (if os_path_isdir dst' w then raise IsADirectoryError w
           else bind (effect (Copied src dst') (put (fs w) dst' (File c))) (\<lambda>_. return dst') w))"

definition os_remove :: "path \<Rightarrow> world \<Rightarrow> unit result" where
  "os_remove p w =
     (case resolve (fs w) p of
        Inl e \<Rightarrow> raise e w
      | Inr (Dir es) \<Rightarrow> raise IsADirectoryError w
      | Inr (File c) \<Rightarrow> effect (Removed p) (del (fs w) p) w)"

definition os_rename :: "path \<Rightarrow> path \<Rightarrow> world \<Rightarrow> unit result" where
  \<comment> \<open>the entry leaves its place and takes the other, in one step; the destination is
      not a directory where \<open>shutil.move\<close> calls it\<close>
  "os_rename src dst w =
     (case resolve (fs w) src of
        Inl e \<Rightarrow> raise e w
      | Inr n \<Rightarrow>
          (case del (fs w) src of
             Inl e \<Rightarrow> raise e w
           | Inr t \<Rightarrow> effect (Moved src dst) (put t dst n) w))"

definition shutil_move :: "path \<Rightarrow> path \<Rightarrow> world \<Rightarrow> unit result" where
  \<comment> \<open>into a destination that is a directory, under the source's own name, unless taken\<close>
  "shutil_move src dst w =
     (if os_path_isdir dst w
      then (let real_dst = dst @ [last src] in
            if os_path_exists real_dst w then raise ShutilError w else os_rename src real_dst w)
      else os_rename src dst w)"

definition now :: "world \<Rightarrow> datetime result" where
  \<comment> \<open>\<open>datetime.datetime.now()\<close>: the next reading of the clock\<close>
  "now w = return (clock w (ticks w)) (w\<lparr>ticks := Suc (ticks w)\<rparr>)"

definition input_line :: "world \<Rightarrow> string result" where
  \<comment> \<open>\<open>input(prompt)\<close>: the next line of the console, \<open>EOFError\<close> when there is none\<close>
  "input_line w =
     (case stdin w of
        [] \<Rightarrow> raise EOFError w
      | l # ls \<Rightarrow> return l (emit (Answered l) (fs w) (w\<lparr>stdin := ls\<rparr>)))"

definition log :: "message \<Rightarrow> world \<Rightarrow> unit result" where
  "log m w = return () (emit (Logged m) (fs w) w)"

definition progress :: "world \<Rightarrow> unit result" where
  \<comment> \<open>\<open>with Progress(...)\<close>: the name is bound only when the import of \<open>rich\<close> succeeded\<close>
  "progress w = (if rich_available w then return () w else raise NameError w)"

section \<open>The program\<close>

definition MIGRATIONS_DIR :: path where
  "MIGRATIONS_DIR = []"

definition OUTPUT_FILE :: path where
  "OUTPUT_FILE = MIGRATIONS_DIR @ [''consolidated_migration.sql'']"

definition TEMP_FILE :: path where
  "TEMP_FILE = MIGRATIONS_DIR @ [''consolidated_migration.sql.tmp'']"

definition BACKUP_DIR :: path where
  "BACKUP_DIR = MIGRATIONS_DIR @ [''backups'']"

definition create_backup_dir :: "world \<Rightarrow> unit result" where
  "create_backup_dir w =
     (if \<not> os_path_exists BACKUP_DIR w
      then bind (os_makedirs BACKUP_DIR) (\<lambda>_. log Created_backup_dir) w
      else return () w)"

definition backup_migrations :: "string list \<Rightarrow> world \<Rightarrow> path result" where
  "backup_migrations files =
     bind now (\<lambda>t.
     let backup_subdir = BACKUP_DIR @ [''migrations_backup_'' @ fmt_stamp t] in
     bind (os_makedirs backup_subdir) (\<lambda>_.
     bind progress (\<lambda>_.
     bind (for_each files (\<lambda>filename.
             let src_path = MIGRATIONS_DIR @ [filename];
                 dst_path = backup_subdir @ [filename]
             in bind (shutil_copy2 src_path dst_path) (\<lambda>_. return ()))) (\<lambda>_.
     bind (log (All_backed_up backup_subdir)) (\<lambda>_.
     return backup_subdir)))))"

definition delete_migrations :: "string list \<Rightarrow> world \<Rightarrow> unit result" where
  "delete_migrations files =
     bind progress (\<lambda>_.
     bind (for_each files (\<lambda>filename.
             let file_path = MIGRATIONS_DIR @ [filename] in os_remove file_path)) (\<lambda>_.
     log Originals_deleted))"

definition rename_to_init :: "string option \<Rightarrow> world \<Rightarrow> unit result" where
  "rename_to_init timestamp_arg =
     bind (case timestamp_arg of
             None \<Rightarrow> bind now (\<lambda>t. return (fmt_date t))
           | Some ts \<Rightarrow> return ts) (\<lambda>ts.
     let init_file_path = MIGRATIONS_DIR @ [init_filename ts] in
     bind (\<lambda>w. if os_path_exists init_file_path w
               then (let backup_path = BACKUP_DIR @ [init_filename ts @ ''.bak''] in
                     bind (shutil_copy2 init_file_path backup_path) (\<lambda>_.
                     bind (log (Init_backed_up backup_path)) (\<lambda>_.
                     os_remove init_file_path)) w)
               else return () w) (\<lambda>_.
     bind (shutil_copy2 OUTPUT_FILE init_file_path) (\<lambda>_.
     log (Renamed_to (init_filename ts)))))"

text \<open>
  \<open>consolidate_migrations\<close>, in the order of its statements. Three stretches of
  its body have a name of their own here: the \<open>with open(TEMP_FILE, 'w')\<close> block
  (lines 200 to 233), the backup of the previous consolidated file (lines 236 to 242)
  and the deletion of the originals (lines 255 to 264).
\<close>

definition write_consolidated :: "string list \<Rightarrow> world \<Rightarrow> unit result" where
  "write_consolidated files =
     bind (open_w TEMP_FILE) (\<lambda>_.
     bind (for_each (header_top (hd files) (last files)) (file_write TEMP_FILE)) (\<lambda>_.
     bind now (\<lambda>t.
     bind (for_each (header_bottom (fmt_created t)) (file_write TEMP_FILE)) (\<lambda>_.
     bind progress (\<lambda>_.
     for_each files (\<lambda>filename.
       let file_path = MIGRATIONS_DIR @ [filename] in
       bind (for_each (section_header filename) (file_write TEMP_FILE)) (\<lambda>_.
       bind (read_text file_path) (\<lambda>content.
       for_each (section_body content) (file_write TEMP_FILE)))))))))"

definition backup_old_consolidated :: "world \<Rightarrow> unit result" where
  "backup_old_consolidated w =
     (if os_path_exists OUTPUT_FILE w
      then bind create_backup_dir (\<lambda>_.
           bind now (\<lambda>t.
           let backup_consolidated = BACKUP_DIR @ [''consolidated_migration_'' @ fmt_stamp t @ ''.sql''] in
           bind (shutil_copy2 OUTPUT_FILE backup_consolidated) (\<lambda>_.
           log (Existing_backed_up backup_consolidated)))) w
      else return () w)"

definition delete_originals :: "options \<Rightarrow> string list \<Rightarrow> world \<Rightarrow> unit result" where
  "delete_originals opts files =
     (if delete opts
      then (if \<not> backup opts
            then log Delete_without_backup
            else bind input_line (\<lambda>confirmation.
                 if lower confirmation = ''y''
                 then delete_migrations files
                 else log Delete_cancelled))
      else return ())"

definition consolidate_migrations :: "options option \<Rightarrow> world \<Rightarrow> unit result" where
  "consolidate_migrations options_arg =
     bind (case options_arg of
             None \<Rightarrow> bind now (\<lambda>t. return
                       \<lparr>backup = True, delete = False, rename = False, timestamp = fmt_date t\<rparr>)
           | Some opts \<Rightarrow> return opts) (\<lambda>opts.
     bind (os_listdir MIGRATIONS_DIR) (\<lambda>listing.
     let files = migration_files opts listing in
     if files = [] then log No_migration_files
     else
     bind (log (Found (length files))) (\<lambda>_.
     bind (if backup opts
           then bind create_backup_dir (\<lambda>_.
                bind (backup_migrations files) (\<lambda>backup_dir.
                log (Backup_complete backup_dir)))
           else return ()) (\<lambda>_.
     bind (write_consolidated files) (\<lambda>_.
     bind backup_old_consolidated (\<lambda>_.
     bind (shutil_move TEMP_FILE OUTPUT_FILE) (\<lambda>_.
     bind (log (Consolidated_into OUTPUT_FILE)) (\<lambda>_.
     bind (log (Total_processed (length files))) (\<lambda>_.
     bind (if rename opts then rename_to_init (Some (timestamp opts)) else return ()) (\<lambda>_.
     delete_originals opts files))))))))))"

section \<open>The interactive menu (lines 119 to 164)\<close>

text \<open>
  The loop reads one line for the choice and, in three places, a second line. Every
  turn takes at least one line from the console, so the loop is a recursion on the
  lines still to come; without a line left, \<open>input\<close> raises \<open>EOFError\<close>. The
  result carries the lines not yet read. What the menu prints is not kept.
\<close>

fun menu_loop :: "options \<Rightarrow> string list \<Rightarrow> (error + options) \<times> string list" where
  "menu_loop opts [] = (Inl EOFError, [])"
| "menu_loop opts (l # ls) =
     (let choice = strip l in
      if choice = ''5'' then (Inl SystemExit, ls)
      else if choice = ''4'' then (Inr opts, ls)
      else if choice = ''1'' then
        (let opts1 = opts\<lparr>backup := \<not> backup opts\<rparr> in
         if delete opts1 \<and> \<not> backup opts1
         then (case ls of
                 [] \<Rightarrow> (Inl EOFError, [])
               | enter # ls' \<Rightarrow> menu_loop (opts1\<lparr>backup := True\<rparr>) ls')
         else menu_loop opts1 ls)
      else if choice = ''2'' then
        (let opts1 = opts\<lparr>delete := \<not> delete opts\<rparr> in
         if delete opts1 \<and> \<not> backup opts1
         then (case ls of
                 [] \<Rightarrow> (Inl EOFError, [])
               | enter # ls' \<Rightarrow> menu_loop (opts1\<lparr>backup := True\<rparr>) ls')
         else menu_loop opts1 ls)
      else if choice = ''3'' then
        (let opts1 = opts\<lparr>rename := \<not> rename opts\<rparr> in
         if rename opts1
         then (case ls of
                 [] \<Rightarrow> (Inl EOFError, [])
               | ts # ls' \<Rightarrow>
                   menu_loop (if strip ts \<noteq> [] then opts1\<lparr>timestamp := strip ts\<rparr> else opts1) ls')
         else menu_loop opts1 ls)
      else menu_loop opts ls)"

definition show_menu :: "world \<Rightarrow> options result" where
  "show_menu =
     bind now (\<lambda>t w.
     let options = \<lparr>backup = True, delete = False, rename = False, timestamp = fmt_date t\<rparr> in
     case menu_loop options (stdin w) of
       (Inl e, rest) \<Rightarrow> raise e (w\<lparr>stdin := rest\<rparr>)
     | (Inr opts, rest) \<Rightarrow> return opts (w\<lparr>stdin := rest\<rparr>))"

section \<open>The command line (lines 278 to 300)\<close>

text \<open>The parsed arguments; \<open>--timestamp\<close> is \<open>None\<close> when the flag is absent.\<close>

record args =
  arg_backup :: bool
  arg_delete :: bool
  arg_rename :: bool
  arg_timestamp :: "string option"
  arg_interactive :: bool

definition truthy :: "string option \<Rightarrow> bool" where
  \<comment> \<open>the truth value of \<open>args.timestamp\<close>: neither \<open>None\<close> nor the empty string\<close>
  "truthy x = (case x of None \<Rightarrow> False | Some s \<Rightarrow> s \<noteq> [])"

definition use_menu :: "args \<Rightarrow> bool" where
  \<comment> \<open>line 289\<close>
  "use_menu a =
     (arg_interactive a \<or> \<not> (arg_backup a \<or> arg_delete a \<or> arg_rename a \<or> truthy (arg_timestamp a)))"

definition build_options :: "args \<Rightarrow> world \<Rightarrow> options result" where
  \<comment> \<open>lines 289 to 297\<close>
  "build_options a =
     (if use_menu a then show_menu
      else bind (\<lambda>w. if truthy (arg_timestamp a)
                     then return (the (arg_timestamp a)) w
                     else bind now (\<lambda>t. return (fmt_date t)) w) (\<lambda>ts.
           return \<lparr>backup = arg_backup a, delete = arg_delete a, rename = arg_rename a,
                   timestamp = ts\<rparr>))"

definition main :: "args \<Rightarrow> world \<Rightarrow> unit result" where
  "main a = bind (build_options a) (\<lambda>opts. consolidate_migrations (Some opts))"

section \<open>Trees\<close>

definition apart :: "path \<Rightarrow> path \<Rightarrow> bool" where
  "apart p q \<longleftrightarrow> \<not> prefix p q \<and> \<not> prefix q p"

section \<open>Traces\<close>

fun targets :: "event \<Rightarrow> path set" where
  "targets (Made_dirs p) = {p}"
| "targets (Copied src dst) = {dst}"
| "targets (Opened p) = {p}"
| "targets (Wrote p s) = {p}"
| "targets (Moved src dst) = {src, dst}"
| "targets (Removed p) = {p}"
| "targets (Logged m) = {}"
| "targets (Answered l) = {}"







section \<open>Stages\<close>

definition under :: "path set \<Rightarrow> event \<Rightarrow> bool" where
  "under W e \<longleftrightarrow> (\<forall>p \<in> targets e. \<exists>r \<in> W. prefix r p)"




definition listdir :: "world \<Rightarrow> string list" where
  "listdir w = (case fs w of File c \<Rightarrow> [] | Dir es \<Rightarrow> map fst es)"

definition new_events :: "world \<Rightarrow> world \<Rightarrow> (event \<times> node) list" where
  "new_events w w' = take (length (hist w') - length (hist w)) (hist w')"

section \<open>The run up to the deletion\<close>




section \<open>The text written to the temporary file\<close>









section \<open>After the move\<close>



definition in_force :: "options option \<Rightarrow> world \<Rightarrow> options" where
  "in_force options_arg w =
     (case options_arg of
        None \<Rightarrow> \<lparr>backup = True, delete = False, rename = False, timestamp = fmt_date (clock w (ticks w))\<rparr>
      | Some opts \<Rightarrow> opts)"

definition started :: "options option \<Rightarrow> world \<Rightarrow> world" where
  "started options_arg w = (case options_arg of None \<Rightarrow> w\<lparr>ticks := Suc (ticks w)\<rparr> | Some opts \<Rightarrow> w)"


definition ex_time :: datetime where
  "ex_time = \<lparr>year = 2024, month = 1, day = 3, hour = 4, minute = 5, second = 6\<rparr>"

definition ex_world :: world where
  "ex_world =
     \<lparr>fs = Dir [(''20240102_b.sql'', File ''create table b();''),
                (''consolidated_migration.sql'', File ''old''),
                (''20240101_a.sql'', File ''create table a();''),
                (''consolidate_migrations.py'', File ''#!/usr/bin/env python3'')],
      stdin = [], clock = (\<lambda>n. ex_time), ticks = 0, rich_available = True, hist = []\<rparr>"



definition ex_menu_world :: world where
  "ex_menu_world = ex_world\<lparr>stdin := [''2'', '' 1'', '''', ''4'']\<rparr>"

definition ex_delete_flag :: args where
  "ex_delete_flag =
     \<lparr>arg_backup = False, arg_delete = True, arg_rename = False, arg_timestamp = None,
      arg_interactive = False\<rparr>"

definition allowed :: "options \<Rightarrow> bool" where
  "allowed opts \<longleftrightarrow> (delete opts \<longrightarrow> backup opts)"

definition init_file_path :: "string \<Rightarrow> path" where
  "init_file_path ts = MIGRATIONS_DIR @ [init_filename ts]"

definition backup_path :: "string \<Rightarrow> path" where
  "backup_path ts = BACKUP_DIR @ [init_filename ts @ ''.bak'']"






section \<open>Properties of the strings\<close>

lemma startswith_prefix: "startswith s p \<longleftrightarrow> prefix p s"
  unfolding startswith_def prefix_def
  by (metis append_eq_conv_conj append_take_drop_id)

lemma endswith_suffix: "endswith s p \<longleftrightarrow> suffix p s"
proof
  assume "endswith s p"
  then have "s = take (length s - length p) s @ p"
    unfolding endswith_def by (metis append_take_drop_id)
  then show "suffix p s"
    unfolding suffix_def by blast
next
  assume "suffix p s"
  then obtain xs where "s = xs @ p"
    unfolding suffix_def by blast
  then show "endswith s p"
    unfolding endswith_def by simp
qed

lemma trailing_newlines_snoc: "trailing_newlines (s @ [newline]) = Suc (trailing_newlines s)"
  by (simp add: trailing_newlines_def)

lemma trailing_newlines_le: "trailing_newlines s \<le> length s"
  unfolding trailing_newlines_def by (metis length_rev length_takeWhile_le)

lemma endswith_newline: "endswith c [newline] \<longleftrightarrow> 0 < trailing_newlines c"
  unfolding endswith_suffix trailing_newlines_def
  by (cases c rule: rev_cases) (auto simp: suffix_def)

lemma section_body_concat:
  "concat (section_body c) = c @ replicate (if endswith c [newline] then 1 else 2) newline"
  by (simp add: section_body_def numeral_2_eq_2)

lemma section_body_trailing:
  "trailing_newlines (concat (section_body c)) = max 1 (trailing_newlines c) + 1"
  using endswith_newline [of c]
  by (auto simp add: section_body_def trailing_newlines_snoc simp flip: append_assoc)

section \<open>Discovery\<close>

lemma migration_files_filter:
  "migration_files opts listing =
     sort (filter (\<lambda>f. suffix ''.sql'' f \<and> \<not> prefix ''consolidated_migration'' f \<and>
                        (rename opts \<longrightarrow> \<not> prefix (timestamp opts @ ''_initial_schema'') f)) listing)"
  by (simp add: migration_files_def Let_def startswith_prefix endswith_suffix conj_commute conj_left_commute)

lemma migration_files_set:
  "set (migration_files opts listing) =
     {f \<in> set listing. suffix ''.sql'' f \<and> \<not> prefix ''consolidated_migration'' f \<and>
        (rename opts \<longrightarrow> \<not> prefix (timestamp opts @ ''_initial_schema'') f)}"
  unfolding migration_files_filter by auto

lemma migration_files_sorted: "sorted (migration_files opts listing)"
  unfolding migration_files_filter by simp

lemma migration_files_distinct: "distinct listing \<Longrightarrow> distinct (migration_files opts listing)"
  unfolding migration_files_filter by simp

lemma migration_files_subset: "set (migration_files opts listing) \<subseteq> set listing"
  unfolding migration_files_set by blast

text \<open>
  C7, as amended. Of a listing with distinct names, discovery keeps exactly the names
  that end with \<open>.sql\<close>, do not start with \<open>consolidated_migration\<close> and, when
  rename is requested, do not start with \<open>{timestamp}_initial_schema\<close> (a test on
  the beginning of the name, which the planned init file name passes, and so does any
  longer name with that beginning). The result is in strictly ascending order of the
  names, and it is the same for any two listings of the same names, whatever the order
  in which the directory reports them.
\<close>

theorem migration_files_selection:
  "distinct listing \<longrightarrow>
     set (migration_files opts listing) =
       {f \<in> set listing. suffix ''.sql'' f \<and> \<not> prefix ''consolidated_migration'' f \<and>
          (rename opts \<longrightarrow> \<not> prefix (timestamp opts @ ''_initial_schema'') f)} \<and>
     sorted_wrt (<) (migration_files opts listing) \<and>
     (\<forall>listing'. distinct listing' \<and> set listing' = set listing \<longrightarrow>
        migration_files opts listing' = migration_files opts listing)"
proof (intro impI conjI allI)
  show "set (migration_files opts listing) =
       {f \<in> set listing. suffix ''.sql'' f \<and> \<not> prefix ''consolidated_migration'' f \<and>
          (rename opts \<longrightarrow> \<not> prefix (timestamp opts @ ''_initial_schema'') f)}"
    by (rule migration_files_set)
next
  assume "distinct listing"
  then show "sorted_wrt (<) (migration_files opts listing)"
    using migration_files_sorted [of opts listing] migration_files_distinct [of listing opts]
    by (simp add: strict_sorted_iff)
next
  fix listing'
  assume d: "distinct listing" and d': "distinct listing' \<and> set listing' = set listing"
  have "set (migration_files opts listing') = set (migration_files opts listing)"
    using d' by (simp add: migration_files_set)
  then show "migration_files opts listing' = migration_files opts listing"
    using d d' migration_files_sorted migration_files_distinct
    by (blast intro: sorted_distinct_set_unique)
qed

theorem migration_files_selection_witness:
  "distinct [''b.sql'', ''20240103_initial_schema.sql'', ''a.sql'', ''notes.txt''] \<and>
   migration_files \<lparr>backup = True, delete = False, rename = True, timestamp = ''20240103''\<rparr>
     [''b.sql'', ''20240103_initial_schema.sql'', ''a.sql'', ''notes.txt''] = [''a.sql'', ''b.sql''] \<and>
   migration_files \<lparr>backup = True, delete = False, rename = True, timestamp = ''20240103''\<rparr>
     [''notes.txt'', ''a.sql'', ''b.sql'', ''20240103_initial_schema.sql''] =
   migration_files \<lparr>backup = True, delete = False, rename = True, timestamp = ''20240103''\<rparr>
     [''b.sql'', ''20240103_initial_schema.sql'', ''a.sql'', ''notes.txt'']"
proof -
  have d: "distinct [''b.sql'', ''20240103_initial_schema.sql'', ''a.sql'', ''notes.txt'']"
    by simp
  have d': "distinct [''notes.txt'', ''a.sql'', ''b.sql'', ''20240103_initial_schema.sql''] \<and>
      set [''notes.txt'', ''a.sql'', ''b.sql'', ''20240103_initial_schema.sql''] =
      set [''b.sql'', ''20240103_initial_schema.sql'', ''a.sql'', ''notes.txt'']"
    by auto
  have v: "migration_files \<lparr>backup = True, delete = False, rename = True, timestamp = ''20240103''\<rparr>
     [''b.sql'', ''20240103_initial_schema.sql'', ''a.sql'', ''notes.txt''] = [''a.sql'', ''b.sql'']"
    by (simp add: migration_files_def endswith_def startswith_def)
  show ?thesis
    using d d' v
      migration_files_selection [of "[''b.sql'', ''20240103_initial_schema.sql'', ''a.sql'', ''notes.txt'']"
        "\<lparr>backup = True, delete = False, rename = True, timestamp = ''20240103''\<rparr>"]
    by blast
qed

text \<open>
  C7 as it is stated fails where a name only begins like the planned init file name:
  with the timestamp \<open>20240103\<close> the planned init file is
  \<open>20240103_initial_schema.sql\<close>; the entry \<open>20240103_initial_schema_v2.sql\<close> ends
  with \<open>.sql\<close>, does not start with the consolidated file's base name and is not the
  planned init file name, yet discovery leaves it out.
\<close>

theorem migration_files_selection_counterexample:
  "endswith ''20240103_initial_schema_v2.sql'' ''.sql'' \<and>
   \<not> startswith ''20240103_initial_schema_v2.sql'' ''consolidated_migration'' \<and>
   ''20240103_initial_schema_v2.sql'' \<noteq> init_filename ''20240103'' \<and>
   ''20240103_initial_schema_v2.sql'' \<notin> set (migration_files
      \<lparr>backup = False, delete = False, rename = True, timestamp = ''20240103''\<rparr>
      [''20240101_a.sql'', ''20240103_initial_schema_v2.sql''])"
  by (simp add: migration_files_def endswith_def startswith_def init_filename_def)

section \<open>The end of a section\<close>

text \<open>
  C6, as amended. The text written for a file's content is the content, then one
  newline when the content does not end with one, then one more newline; nothing is
  taken away. So the section ends with one newline more than the content has at its
  end, and with two when the content has none. A content with text in it is followed
  by as many empty lines as it has newlines at its end, and by one when it has none:
  exactly one empty line precedes the next block when the content ends with at most
  one newline, and \<open>k\<close> of them when it ends with \<open>k \<ge> 2\<close> newlines.
\<close>

theorem section_body_blank_lines:
  "concat (section_body c) = c @ replicate (if endswith c [newline] then 1 else 2) newline \<and>
   trailing_newlines (concat (section_body c)) = max 1 (trailing_newlines c) + 1 \<and>
   blank_lines_at_end (concat (section_body c)) =
     (if trailing_newlines c = length c then max 1 (trailing_newlines c) + 1
      else max 1 (trailing_newlines c))"
proof -
  have len: "length (concat (section_body c)) = length c + (if endswith c [newline] then 1 else 2)"
    by (simp add: section_body_concat)
  have "blank_lines_at_end (concat (section_body c)) =
     (if trailing_newlines c = length c then max 1 (trailing_newlines c) + 1
      else max 1 (trailing_newlines c))"
    unfolding blank_lines_at_end_def section_body_trailing len
    using trailing_newlines_le [of c] endswith_newline [of c]
    by (auto simp: max_def)
  then show ?thesis
    using section_body_concat section_body_trailing by blast
qed

text \<open>
  C6 as it is stated fails for a content that ends with two newlines: the section then
  ends with three, which is two empty lines before the next block, not one.
\<close>

theorem section_body_blank_lines_counterexample:
  "concat (section_body [CHR ''x'', newline, newline]) = [CHR ''x'', newline, newline, newline] \<and>
   blank_lines_at_end (concat (section_body [CHR ''x'', newline, newline])) = 2"
  by (simp add: blank_lines_at_end_def trailing_newlines_def section_body_def endswith_def newline_def)


lemma apart_Nil [simp]: "\<not> apart [] q" "\<not> apart p []"
  by (auto simp: apart_def)





















subsection \<open>The library calls\<close>



























section \<open>What a trace leaves alone\<close>









lemma under_mono: "under W e \<Longrightarrow> (\<And>r. r \<in> W \<Longrightarrow> \<exists>r' \<in> W'. prefix r' r) \<Longrightarrow> under W' e"
  unfolding under_def by (meson prefix_order.trans)











section \<open>Deletion asked for without a backup\<close>


section \<open>Entries of the migrations directory\<close>

lemma resolve_single_Inr: "resolve t [n] = Inr m \<longleftrightarrow> child t n = Some m"
  by (cases t) (auto split: option.splits)

lemma put_single: "put t [n] v = Inr t' \<Longrightarrow> child t' = (child t)(n \<mapsto> v)"
  by (cases t) (auto simp: update_conv' map_add_def fun_eq_iff split: option.splits)


lemma del_single: "del t [n] = Inr t' \<Longrightarrow> child t' = (child t)(n := None)"
  by (cases t) (auto simp: delete_conv' fun_eq_iff split: option.splits)

lemma del_single_ok: "child t n = Some m \<Longrightarrow> \<exists>t'. del t [n] = Inr t'"
  by (cases t) auto


lemma isdir_single: "os_path_isdir [n] w \<longleftrightarrow> (\<exists>es. child (fs w) n = Some (Dir es))"
  unfolding os_path_isdir_def
  by (cases "fs w") (auto split: option.splits sum.splits node.splits)


subsection \<open>What a call that returned has done\<close>






lemma effect_Inr: "effect e r w = Inr (u, w') \<Longrightarrow> \<exists>t. r = Inr t \<and> fs w' = t"
  by (auto simp: effect_def return_def raise_def emit_def split: sum.splits)




lemma os_rename_Inr:
  "os_rename [a] [b] w = Inr (u, w') \<Longrightarrow> a \<noteq> b \<Longrightarrow>
   \<exists>m. child (fs w) a = Some m \<and> child (fs w') = (child (fs w))(a := None, b \<mapsto> m)"
  by (auto simp: os_rename_def raise_def resolve_single_Inr split: sum.splits
      dest!: effect_Inr put_single del_single)

lemma shutil_move_Inr:
  "shutil_move [a] [b] w = Inr (u, w') \<Longrightarrow> a \<noteq> b \<Longrightarrow> \<forall>es. child (fs w) b \<noteq> Some (Dir es) \<Longrightarrow>
   \<exists>m. child (fs w) a = Some m \<and> child (fs w') = (child (fs w))(a := None, b \<mapsto> m)"
  by (auto simp: shutil_move_def isdir_single dest: os_rename_Inr)


































lemma started_simps [simp]:
  "fs (started oa w) = fs w" "hist (started oa w) = hist w" "clock (started oa w) = clock w"
  "stdin (started oa w) = stdin w" "rich_available (started oa w) = rich_available w"
  "listdir (started oa w) = listdir w" "new_events (started oa w) w' = new_events w w'"
  by (cases oa; simp add: started_def listdir_def new_events_def)+




section \<open>The consolidated file\<close>


section \<open>Runs that return\<close>



















section \<open>The previous consolidated file\<close>











lemma allowed_updates:
  "allowed (opts\<lparr>backup := True\<rparr>)"
  "allowed opts \<Longrightarrow> allowed (opts\<lparr>rename := r\<rparr>)"
  "allowed opts \<Longrightarrow> allowed (opts\<lparr>timestamp := ts\<rparr>)"
  "\<not> (delete opts \<and> backup opts) \<Longrightarrow> allowed opts \<Longrightarrow> allowed (opts\<lparr>backup := \<not> backup opts\<rparr>)"
  "\<not> (\<not> delete opts \<and> \<not> backup opts) \<Longrightarrow> allowed (opts\<lparr>delete := \<not> delete opts\<rparr>)"
  by (auto simp: allowed_def)

lemma menu_loop_unfold:
  "menu_loop opts (l # ls) =
     (if strip l = ''5'' then (Inl SystemExit, ls)
      else if strip l = ''4'' then (Inr opts, ls)
      else if strip l = ''1'' then
        (if delete opts \<and> backup opts
         then (case ls of [] \<Rightarrow> (Inl EOFError, [])
               | enter # ls' \<Rightarrow> menu_loop (opts\<lparr>backup := \<not> backup opts, backup := True\<rparr>) ls')
         else menu_loop (opts\<lparr>backup := \<not> backup opts\<rparr>) ls)
      else if strip l = ''2'' then
        (if \<not> delete opts \<and> \<not> backup opts
         then (case ls of [] \<Rightarrow> (Inl EOFError, [])
               | enter # ls' \<Rightarrow> menu_loop (opts\<lparr>delete := \<not> delete opts, backup := True\<rparr>) ls')
         else menu_loop (opts\<lparr>delete := \<not> delete opts\<rparr>) ls)
      else if strip l = ''3'' then
        (if \<not> rename opts
         then (case ls of [] \<Rightarrow> (Inl EOFError, [])
               | ts # ls' \<Rightarrow>
                   menu_loop (if strip ts \<noteq> [] then opts\<lparr>rename := \<not> rename opts, timestamp := strip ts\<rparr>
                              else opts\<lparr>rename := \<not> rename opts\<rparr>) ls')
         else menu_loop (opts\<lparr>rename := \<not> rename opts\<rparr>) ls)
      else menu_loop opts ls)"
  by (simp add: Let_def)

lemma menu_loop_keeps:
  "menu_loop opts ls = (Inr opts', rest) \<Longrightarrow> allowed opts \<Longrightarrow> allowed opts'"
proof (induction ls arbitrary: opts rule: length_induct)
  case (1 ls)
  have IH: "allowed opts'"
    if "length ys < length ls" "menu_loop o1 ys = (Inr opts', rest)" "allowed o1" for ys o1
    using "1.IH" that by blast
  show ?case
  proof (cases ls)
    case Nil
    with "1.prems" show ?thesis by simp
  next
    case (Cons l ls0)
    have s: "length ls0 < length ls" using Cons by simp
    have s': "length xs < length ls" if "ls0 = x # xs" for x xs using Cons that by simp
    note eq = "1.prems"(1) [unfolded Cons menu_loop_unfold]
    note al = "1.prems"(2)
    show ?thesis
    proof (cases "strip l = ''5''")
      case True
      with eq show ?thesis by simp
    next
      case n5: False
      show ?thesis
      proof (cases "strip l = ''4''")
        case True
        with eq n5 al show ?thesis by simp
      next
        case n4: False
        show ?thesis
        proof (cases "strip l = ''1''")
          case True
          show ?thesis
          proof (cases "delete opts \<and> backup opts")
            case t: True
            with eq n5 n4 True obtain x xs where l0: "ls0 = x # xs"
              and m: "menu_loop (opts\<lparr>backup := \<not> backup opts, backup := True\<rparr>) xs = (Inr opts', rest)"
              by (cases ls0) simp_all
            show ?thesis
              by (rule IH [OF s' [OF l0] m]) (simp add: allowed_def)
          next
            case f: False
            with eq n5 n4 True
            have m: "menu_loop (opts\<lparr>backup := \<not> backup opts\<rparr>) ls0 = (Inr opts', rest)"
              by simp
            show ?thesis
              by (rule IH [OF s m]) (rule allowed_updates(4) [OF f al])
          qed
        next
          case n1: False
          show ?thesis
          proof (cases "strip l = ''2''")
            case True
            show ?thesis
            proof (cases "\<not> delete opts \<and> \<not> backup opts")
              case t: True
              with eq n5 n4 n1 True obtain x xs where l0: "ls0 = x # xs"
                and m: "menu_loop (opts\<lparr>delete := \<not> delete opts, backup := True\<rparr>) xs = (Inr opts', rest)"
                by (cases ls0) simp_all
              show ?thesis
                by (rule IH [OF s' [OF l0] m]) (simp add: allowed_def)
            next
              case f: False
              with eq n5 n4 n1 True
              have m: "menu_loop (opts\<lparr>delete := \<not> delete opts\<rparr>) ls0 = (Inr opts', rest)"
                by simp
              show ?thesis
                by (rule IH [OF s m]) (rule allowed_updates(5) [OF f])
            qed
          next
            case n2: False
            show ?thesis
            proof (cases "strip l = ''3''")
              case True
              show ?thesis
              proof (cases "\<not> rename opts")
                case t: True
                with eq n5 n4 n1 n2 True obtain x xs where l0: "ls0 = x # xs"
                  and m: "menu_loop (if strip x \<noteq> [] then opts\<lparr>rename := \<not> rename opts, timestamp := strip x\<rparr>
                              else opts\<lparr>rename := \<not> rename opts\<rparr>) xs = (Inr opts', rest)"
                  by (cases ls0) simp_all
                show ?thesis
                  by (rule IH [OF s' [OF l0] m]) (use al in \<open>simp add: allowed_def\<close>)
              next
                case f: False
                with eq n5 n4 n1 n2 True
                have m: "menu_loop (opts\<lparr>rename := \<not> rename opts\<rparr>) ls0 = (Inr opts', rest)"
                  by simp
                show ?thesis
                  by (rule IH [OF s m]) (rule allowed_updates(2) [OF al])
              qed
            next
              case n3: False
              with eq n5 n4 n1 n2 have m: "menu_loop opts ls0 = (Inr opts', rest)"
                by simp
              show ?thesis
                by (rule IH [OF s m al])
            qed
          qed
        qed
      qed
    qed
  qed
qed

lemma show_menu_allowed: "show_menu w = Inr (opts, w') \<Longrightarrow> allowed opts"
proof -
  assume a: "show_menu w = Inr (opts, w')"
  let ?start = "\<lparr>backup = True, delete = False, rename = False, timestamp = fmt_date (clock w (ticks w))\<rparr>"
  from a obtain rest where "menu_loop ?start (stdin w) = (Inr opts, rest)"
    by (auto simp: show_menu_def bind_def now_def return_def raise_def Let_def
          split: prod.splits sum.splits)
  then show ?thesis
    by (rule menu_loop_keeps) (simp add: allowed_def)
qed

lemma build_options_flags:
  assumes "\<not> use_menu a"
  shows "build_options a w =
     Inr (\<lparr>backup = arg_backup a, delete = arg_delete a, rename = arg_rename a,
           timestamp = (if truthy (arg_timestamp a) then the (arg_timestamp a)
                        else fmt_date (clock w (ticks w)))\<rparr>,
          if truthy (arg_timestamp a) then w else w\<lparr>ticks := Suc (ticks w)\<rparr>)"
  using assms by (simp add: build_options_def bind_def return_def now_def)

text \<open>
  C4, as amended. The options that the interactive menu returns satisfy
  \<open>delete \<longrightarrow> backup\<close>, whatever is typed: the menu starts from options that satisfy
  it and puts \<open>backup\<close> back on whenever a toggle would break it. So do the options
  that \<open>build_options\<close> returns when it shows the menu, and the default options of
  \<open>consolidate_migrations\<close>. When the options come from the command line flags,
  \<open>build_options\<close> always returns, and the options are the flags as they were given:
  they satisfy \<open>delete \<longrightarrow> backup\<close> exactly when the flags do, and nothing on this path
  changes or rejects them.
\<close>

theorem options_invariant_by_path:
  "(show_menu w = Inr (opts, w') \<longrightarrow> (delete opts \<longrightarrow> backup opts)) \<and>
   (use_menu a \<and> build_options a w = Inr (opts, w') \<longrightarrow> (delete opts \<longrightarrow> backup opts)) \<and>
   (delete (in_force None w) \<longrightarrow> backup (in_force None w)) \<and>
   (\<not> use_menu a \<longrightarrow>
      (\<exists>flags w1. build_options a w = Inr (flags, w1) \<and>
         backup flags = arg_backup a \<and> delete flags = arg_delete a \<and> rename flags = arg_rename a \<and>
         main a w = consolidate_migrations (Some flags) w1))"
proof (intro conjI impI)
  assume "show_menu w = Inr (opts, w')" and "delete opts"
  then show "backup opts"
    using show_menu_allowed by (simp add: allowed_def)
next
  assume "use_menu a \<and> build_options a w = Inr (opts, w')" and d: "delete opts"
  then have u: "use_menu a" and b: "build_options a w = Inr (opts, w')"
    by simp_all
  from b have "show_menu w = Inr (opts, w')"
    unfolding build_options_def using u by simp
  with d show "backup opts"
    using show_menu_allowed by (simp add: allowed_def)
next
  assume "delete (in_force None w)"
  then show "backup (in_force None w)"
    by (simp add: in_force_def)
next
  assume "\<not> use_menu a"
  from build_options_flags [OF this, of w] show
    "\<exists>flags w1. build_options a w = Inr (flags, w1) \<and>
         backup flags = arg_backup a \<and> delete flags = arg_delete a \<and> rename flags = arg_rename a \<and>
         main a w = consolidate_migrations (Some flags) w1"
    by (simp add: main_def bind_def)
qed

lemma ex_menu_returns:
  "show_menu ex_menu_world =
     Inr (\<lparr>backup = True, delete = True, rename = False, timestamp = fmt_date ex_time\<rparr>,
          ex_menu_world\<lparr>ticks := Suc 0, stdin := []\<rparr>)"
  by (simp add: show_menu_def bind_def now_def return_def ex_menu_world_def ex_world_def
      strip_def is_space_def Let_def)

theorem options_invariant_by_path_witness:
  "show_menu ex_menu_world =
     Inr (\<lparr>backup = True, delete = True, rename = False, timestamp = fmt_date ex_time\<rparr>,
          ex_menu_world\<lparr>ticks := Suc 0, stdin := []\<rparr>) \<and>
   delete \<lparr>backup = True, delete = True, rename = False, timestamp = fmt_date ex_time\<rparr> \<and>
   backup \<lparr>backup = True, delete = True, rename = False, timestamp = fmt_date ex_time\<rparr> \<and>
   \<not> use_menu \<lparr>arg_backup = True, arg_delete = True, arg_rename = False, arg_timestamp = None,
                arg_interactive = False\<rparr> \<and>
   (\<exists>flags w1. build_options \<lparr>arg_backup = True, arg_delete = True, arg_rename = False,
                  arg_timestamp = None, arg_interactive = False\<rparr> ex_menu_world = Inr (flags, w1) \<and>
      backup flags \<and> delete flags)"
proof -
  let ?o = "\<lparr>backup = True, delete = True, rename = False, timestamp = fmt_date ex_time\<rparr>"
  let ?a = "\<lparr>arg_backup = True, arg_delete = True, arg_rename = False, arg_timestamp = None,
             arg_interactive = False\<rparr>"
  have n: "\<not> use_menu ?a"
    by (simp add: use_menu_def)
  have d: "delete ?o"
    by simp
  from options_invariant_by_path [of ex_menu_world ?o "ex_menu_world\<lparr>ticks := Suc 0, stdin := []\<rparr>" ?a]
    ex_menu_returns n d
  show ?thesis
    by auto
qed

text \<open>
  C4 as it is stated fails on the command line path: the flag \<open>-d\<close> alone, without
  \<open>-b\<close>, does not show the menu, and the options built from it have \<open>delete\<close> set
  and \<open>backup\<close> not set; \<open>main\<close> hands them to \<open>consolidate_migrations\<close> as they are.
\<close>

theorem options_invariant_counterexample:
  "\<not> use_menu ex_delete_flag \<and>
   build_options ex_delete_flag ex_world =
     Inr (\<lparr>backup = False, delete = True, rename = False, timestamp = fmt_date ex_time\<rparr>,
          ex_world\<lparr>ticks := Suc 0\<rparr>) \<and>
   delete \<lparr>backup = False, delete = True, rename = False, timestamp = fmt_date ex_time\<rparr> \<and>
   \<not> backup \<lparr>backup = False, delete = True, rename = False, timestamp = fmt_date ex_time\<rparr> \<and>
   main ex_delete_flag ex_world =
     consolidate_migrations
       (Some \<lparr>backup = False, delete = True, rename = False, timestamp = fmt_date ex_time\<rparr>)
       (ex_world\<lparr>ticks := Suc 0\<rparr>)"
  by (simp add: use_menu_def truthy_def ex_delete_flag_def build_options_def main_def bind_def
      return_def now_def ex_world_def)





lemma emit_simps [simp]:
  "fs (emit e t w) = t" "hist (emit e t w) = (e, t) # hist w" "stdin (emit e t w) = stdin w"
  "clock (emit e t w) = clock w" "ticks (emit e t w) = ticks w"
  "rich_available (emit e t w) = rich_available w"
  by (simp_all add: emit_def)













end
